theory Spec2Isabelle
  imports Main "HOL-Library.Word"
begin

unbundle bit_operations_syntax

section \<open>The QUIC header of src/model/quic-header.cc\<close>

text \<open>
  The header codec of the ns-3 QUIC module: the class \<open>QuicHeader\<close>, its classifier
  predicates, its setters and accessors, the size calculator, \<open>Serialize\<close>,
  \<open>Deserialize\<close>, the factories and \<open>operator==\<close>. Member functions take the object
  first and return the updated object; an \<open>NS_ASSERT\<close> or \<open>NS_FATAL_ERROR\<close> that aborts
  the process is the \<open>Inl\<close> branch of a sum (assertions are taken as enabled, as in
  a debug build of ns-3). \<open>NS_LOG\<close> statements are not modelled.
\<close>

subsection \<open>Data model\<close>

type_synonym u8 = "8 word"
type_synonym u16 = "16 word"
type_synonym u32 = "32 word"
type_synonym u64 = "64 word"

text \<open>
  The ways a call can abort. \<open>NS_ASSERT (m_type != NONE or m_form == SHORT)\<close> is
  \<open>UnassignedLongType\<close>; the assertions of the accessors and setters
  (\<open>NS_ASSERT (HasVersion ())\<close>, \<open>NS_ASSERT (HasConnectionId ())\<close>,
  \<open>NS_ASSERT (IsShort ())\<close>) are \<open>InvalidFieldAccess\<close>;
  \<open>NS_FATAL_ERROR ("Invalid conditions")\<close> is \<open>UnsupportedPacketNumberWidth\<close>; a read
  past the end of the buffer is \<open>BufferUnderrun\<close>.
\<close>

datatype error =
  UnassignedLongType | InvalidFieldAccess | UnsupportedPacketNumberWidth | BufferUnderrun

text \<open>
  The members of the class, in the order of the constructor's initialiser list.
  \<open>m_packetNumber\<close> is a \<open>SequenceNumber32\<close>, read through \<open>GetValue\<close> as a 32-bit
  unsigned value.
\<close>

record QuicHeader =
  m_form :: bool
  m_fixed :: bool
  m_type :: u8
  m_s :: bool
  m_k :: bool
  m_packetLength :: u8
  m_version :: u32
  m_DCIDLength :: u8
  m_connectionId :: u64
  m_SCIDLength :: u8
  m_SCID :: u64
  m_packetNumber :: u32
  m_c :: bool

text \<open>
  Modelled from the spec: the enumerators are declared in quic-header.h, which is not
  among the sources. Format: \<open>Long\<close> is bit 7 set (\<open>if (m_form) // LONG Header\<close>).
\<close>

definition SHORT :: bool where
  "SHORT = False"

definition LONG :: bool where
  "LONG = True"

text \<open>
  Modelled from the spec: the long packet types, in the order of the spec's
  \<open>LongPacketType\<close> (Initial is code 00), which is the order of the table
  \<open>longTypeNames\<close> that \<open>TypeToString\<close> indexes by \<open>m_type\<close>.
\<close>

definition INITIAL :: u8 where
  "INITIAL = 0"

definition ZRTT_PROTECTED :: u8 where
  "ZRTT_PROTECTED = 1"

definition HANDSHAKE :: u8 where
  "HANDSHAKE = 2"

definition RETRY :: u8 where
  "RETRY = 3"

definition VERSION_NEGOTIATION :: u8 where
  "VERSION_NEGOTIATION = 4"

definition NONE :: u8 where
  "NONE = 5"

text \<open>
  Modelled from the spec: the packet number lengths (0 = One, 1 = Two, 2 = Four), the
  order of the table \<open>shortTypeNames\<close> that \<open>TypeToString\<close> indexes by
  \<open>m_packetLength\<close>.
\<close>

definition ONE_OCTECT :: u8 where
  "ONE_OCTECT = 0"

definition TWO_OCTECTS :: u8 where
  "TWO_OCTECTS = 1"

definition FOUR_OCTECTS :: u8 where
  "FOUR_OCTECTS = 2"

text \<open>Modelled from the spec: the initial values of the spin and key phase bits.\<close>

definition SPIN_ZERO :: bool where
  "SPIN_ZERO = False"

definition PHASE_ZERO :: bool where
  "PHASE_ZERO = False"

text \<open>The default constructor \<open>QuicHeader::QuicHeader\<close>.\<close>

definition QuicHeader_ctor :: QuicHeader where
  "QuicHeader_ctor =
     \<lparr> m_form = SHORT, m_fixed = True, m_type = 0, m_s = SPIN_ZERO, m_k = PHASE_ZERO,
       m_packetLength = 0, m_version = 0, m_DCIDLength = 0, m_connectionId = 0,
       m_SCIDLength = 0, m_SCID = 0, m_packetNumber = 0, m_c = False \<rparr>"

subsection \<open>Classifier\<close>

definition IsShort :: "QuicHeader \<Rightarrow> bool" where
  "IsShort h = (m_form h = SHORT)"

text \<open>
  Modelled from the spec: \<open>IsLong\<close> is called throughout the file and defined outside
  it; the spec derives it from \<open>form\<close>, as \<open>IsShort\<close> is.
\<close>

definition IsLong :: "QuicHeader \<Rightarrow> bool" where
  "IsLong h = (m_form h = LONG)"

definition IsVersionNegotiation :: "QuicHeader \<Rightarrow> bool" where
  "IsVersionNegotiation h = (m_version h = 0)"

definition IsInitial :: "QuicHeader \<Rightarrow> bool" where
  "IsInitial h = (m_type h = INITIAL)"

definition IsRetry :: "QuicHeader \<Rightarrow> bool" where
  "IsRetry h = (m_type h = RETRY)"

definition IsHandshake :: "QuicHeader \<Rightarrow> bool" where
  "IsHandshake h = (m_type h = HANDSHAKE)"

definition IsORTT :: "QuicHeader \<Rightarrow> bool" where
  "IsORTT h = (m_type h = ZRTT_PROTECTED)"

definition HasVersion :: "QuicHeader \<Rightarrow> bool" where
  "HasVersion h = IsLong h"

definition HasConnectionId :: "QuicHeader \<Rightarrow> bool" where
  "HasConnectionId h = (\<not> (IsShort h \<and> m_c h = False))"

subsection \<open>Setters and accessors\<close>

definition GetTypeByte :: "QuicHeader \<Rightarrow> u8" where
  "GetTypeByte h = m_type h"

definition SetType :: "QuicHeader \<Rightarrow> u8 \<Rightarrow> QuicHeader" where
  "SetType h typeByte = h\<lparr>m_type := typeByte\<rparr>"

definition SetPacketLength :: "QuicHeader \<Rightarrow> u8 \<Rightarrow> QuicHeader" where
  "SetPacketLength h packetLength = h\<lparr>m_packetLength := packetLength\<rparr>"

definition GetFormat :: "QuicHeader \<Rightarrow> u8" where
  "GetFormat h = of_bool (m_form h)"

definition SetFormat :: "QuicHeader \<Rightarrow> bool \<Rightarrow> QuicHeader" where
  "SetFormat h form = h\<lparr>m_form := form\<rparr>"

definition GetDCIDLen :: "QuicHeader \<Rightarrow> u8" where
  "GetDCIDLen h = m_DCIDLength h"

definition GetSCIDLen :: "QuicHeader \<Rightarrow> u8" where
  "GetSCIDLen h = m_SCIDLength h"

definition GetConnectionId :: "QuicHeader \<Rightarrow> error + u64" where
  "GetConnectionId h =
     (if \<not> HasConnectionId h then Inl InvalidFieldAccess else Inr (m_connectionId h))"

definition SetConnectionID :: "QuicHeader \<Rightarrow> u64 \<Rightarrow> QuicHeader" where
  "SetConnectionID h connID =
     (let h1 = h\<lparr>m_connectionId := connID\<rparr>
      in if IsShort h1 then h1\<lparr>m_c := True\<rparr> else h1)"

definition GetPacketNumber :: "QuicHeader \<Rightarrow> u32" where
  "GetPacketNumber h = m_packetNumber h"

definition SetPacketNumber :: "QuicHeader \<Rightarrow> u32 \<Rightarrow> QuicHeader" where
  "SetPacketNumber h packNum =
     (let h1 = h\<lparr>m_packetNumber := packNum\<rparr>
      in if IsShort h1 then
           (if packNum < 256 then SetPacketLength h1 ONE_OCTECT
            else if packNum < 65536 then SetPacketLength h1 TWO_OCTECTS
            else SetPacketLength h1 FOUR_OCTECTS)
         else h1)"

definition GetVersion :: "QuicHeader \<Rightarrow> error + u32" where
  "GetVersion h = (if \<not> HasVersion h then Inl InvalidFieldAccess else Inr (m_version h))"

definition SetVersion :: "QuicHeader \<Rightarrow> u32 \<Rightarrow> error + QuicHeader" where
  "SetVersion h version =
     (if \<not> HasVersion h then Inl InvalidFieldAccess else Inr (h\<lparr>m_version := version\<rparr>))"

definition GetKeyPhaseBit :: "QuicHeader \<Rightarrow> error + bool" where
  "GetKeyPhaseBit h = (if \<not> IsShort h then Inl InvalidFieldAccess else Inr (m_k h))"

definition GetSpinBit :: "QuicHeader \<Rightarrow> error + bool" where
  "GetSpinBit h = (if \<not> IsShort h then Inl InvalidFieldAccess else Inr (m_s h))"

definition SetSpinBit :: "QuicHeader \<Rightarrow> bool \<Rightarrow> error + QuicHeader" where
  "SetSpinBit h spinBit =
     (if \<not> IsShort h then Inl InvalidFieldAccess else Inr (h\<lparr>m_s := spinBit\<rparr>))"

definition SetKeyPhaseBit :: "QuicHeader \<Rightarrow> bool \<Rightarrow> error + QuicHeader" where
  "SetKeyPhaseBit h keyPhaseBit =
     (if \<not> IsShort h then Inl InvalidFieldAccess else Inr (h\<lparr>m_k := keyPhaseBit\<rparr>))"

text \<open>
  \<open>TypeToString\<close>: the two name tables, indexed by \<open>m_type\<close> and by
  \<open>m_packetLength\<close>. The table of the short names is declared with four entries and
  three initialisers; an index past the initialised entries is \<open>None\<close>.
\<close>

definition longTypeNames :: "string list" where
  "longTypeNames =
     [''Initial'', ''0-RTT Protected'', ''Handshake'', ''Retry'', ''Version Negotiation'',
      ''None'']"

definition shortTypeNames :: "string list" where
  "shortTypeNames = [''1 Octet'', ''2 Octets'', ''4 Octets'']"

definition TypeToString :: "QuicHeader \<Rightarrow> string option" where
  "TypeToString h =
     (if IsLong h then
        (if unat (m_type h) < length longTypeNames
         then Some (longTypeNames ! unat (m_type h)) else None)
      else
        (if unat (m_packetLength h) < length shortTypeNames
         then Some (shortTypeNames ! unat (m_packetLength h)) else None))"

subsection \<open>Size calculator\<close>

definition GetPacketNumLen :: "QuicHeader \<Rightarrow> error + u32" where
  "GetPacketNumLen h =
     (if IsLong h then Inr 32
      else if m_packetLength h = ONE_OCTECT then Inr 8
      else if m_packetLength h = TWO_OCTECTS then Inr 16
      else if m_packetLength h = FOUR_OCTECTS then Inr 32
      else Inl UnsupportedPacketNumberWidth)"

text \<open>
  \<open>len\<close> is a \<open>uint32_t\<close>; the two length fields are \<open>uint8_t\<close> values widened by
  the addition, and \<open>HasConnectionId ()\<close> is a \<open>bool\<close> multiplied as 0 or 1.
\<close>

definition CalculateHeaderLength :: "QuicHeader \<Rightarrow> error + u32" where
  "CalculateHeaderLength h =
     (if IsLong h then
        Inr ((8 + 32 + 8 + 8 + ucast (GetDCIDLen h) + ucast (GetSCIDLen h)) div 8)
      else
        (case GetPacketNumLen h of
           Inl e \<Rightarrow> Inl e
         | Inr n \<Rightarrow> Inr ((8 + 160 * of_bool (HasConnectionId h) + n) div 8)))"

definition GetSerializedSize :: "QuicHeader \<Rightarrow> error + u32" where
  "GetSerializedSize h =
     (if \<not> (m_type h \<noteq> NONE \<or> m_form h = SHORT) then Inl UnassignedLongType
      else CalculateHeaderLength h)"

subsection \<open>The buffer cursor\<close>

text \<open>
  Modelled from the spec: \<open>Buffer::Iterator\<close> belongs to ns-3 (ns3/buffer.h), not to
  this repository. A write appends bytes at the cursor, so a sequence of writes is the
  concatenation of their bytes; a read takes bytes from the front of what is left and
  fails when too few are left. Multi-byte values are big-endian (network order).
\<close>

definition WriteU8 :: "u8 \<Rightarrow> u8 list" where
  "WriteU8 v = [v]"

definition WriteHtonU16 :: "u16 \<Rightarrow> u8 list" where
  "WriteHtonU16 v = [ucast (drop_bit 8 v), ucast v]"

definition WriteHtonU32 :: "u32 \<Rightarrow> u8 list" where
  "WriteHtonU32 v =
     [ucast (drop_bit 24 v), ucast (drop_bit 16 v), ucast (drop_bit 8 v), ucast v]"

definition WriteHtonU64 :: "u64 \<Rightarrow> u8 list" where
  "WriteHtonU64 v =
     [ucast (drop_bit 56 v), ucast (drop_bit 48 v), ucast (drop_bit 40 v),
      ucast (drop_bit 32 v), ucast (drop_bit 24 v), ucast (drop_bit 16 v),
      ucast (drop_bit 8 v), ucast v]"

fun ReadU8 :: "u8 list \<Rightarrow> error + (u8 \<times> u8 list)" where
  "ReadU8 (a # i) = Inr (a, i)"
| "ReadU8 _ = Inl BufferUnderrun"

fun ReadNtohU16 :: "u8 list \<Rightarrow> error + (u16 \<times> u8 list)" where
  "ReadNtohU16 (a # b # i) = Inr (push_bit 8 (ucast a) OR ucast b, i)"
| "ReadNtohU16 _ = Inl BufferUnderrun"

fun ReadNtohU32 :: "u8 list \<Rightarrow> error + (u32 \<times> u8 list)" where
  "ReadNtohU32 (a # b # c # d # i) =
     Inr (push_bit 24 (ucast a) OR push_bit 16 (ucast b) OR push_bit 8 (ucast c)
          OR ucast d, i)"
| "ReadNtohU32 _ = Inl BufferUnderrun"

fun ReadNtohU64 :: "u8 list \<Rightarrow> error + (u64 \<times> u8 list)" where
  "ReadNtohU64 (a # b # c # d # e # f # g # h # i) =
     Inr (push_bit 56 (ucast a) OR push_bit 48 (ucast b) OR push_bit 40 (ucast c)
          OR push_bit 32 (ucast d) OR push_bit 24 (ucast e) OR push_bit 16 (ucast f)
          OR push_bit 8 (ucast g) OR ucast h, i)"
| "ReadNtohU64 _ = Inl BufferUnderrun"

subsection \<open>Serialize and Deserialize\<close>

text \<open>
  \<open>Serialize\<close> returns the bytes it writes, in order. The flags byte \<open>t\<close> is a
  \<open>uint8_t\<close>: the sums that build it wrap at 256.
\<close>

definition Serialize :: "QuicHeader \<Rightarrow> error + u8 list" where
  "Serialize h =
     (if \<not> (m_type h \<noteq> NONE \<or> m_form h = SHORT) then Inl UnassignedLongType
      else
        (let t = push_bit 7 (of_bool (m_form h)) + push_bit 6 (of_bool (m_fixed h))
         in if m_form h then
              (let t1 = t + push_bit 4 (m_type h)
               in Inr (WriteU8 t1 @ WriteHtonU32 (m_version h)
                   @ WriteU8 (m_DCIDLength h) @ WriteHtonU64 (m_connectionId h)
                   @ WriteU8 (m_SCIDLength h) @ WriteHtonU64 (m_SCID h)
                   @ (if \<not> IsVersionNegotiation h
                      then WriteHtonU32 (m_packetNumber h) else [])))
            else
              (let t1 = t + (push_bit 5 (of_bool (m_s h)) + push_bit 2 (of_bool (m_k h))
                             + m_packetLength h)
               in Inr (WriteU8 t1
                   @ (if HasConnectionId h then WriteHtonU64 (m_connectionId h) else [])
                   @ (if m_packetLength h = ONE_OCTECT
                        then WriteU8 (ucast (m_packetNumber h))
                      else if m_packetLength h = TWO_OCTECTS
                        then WriteHtonU16 (ucast (m_packetNumber h))
                      else if m_packetLength h = FOUR_OCTECTS
                        then WriteHtonU32 (m_packetNumber h)
                      else [])))))"

text \<open>
  The first part of \<open>Deserialize\<close>: the flags byte sets \<open>m_form\<close>, then the spin and
  key phase bits of a short header or the type of a long one.
\<close>

definition Deserialize_flags :: "QuicHeader \<Rightarrow> u8 \<Rightarrow> QuicHeader" where
  "Deserialize_flags h t =
     (let h1 = h\<lparr>m_form := (drop_bit 7 (t AND 0x80) \<noteq> 0)\<rparr>
      in if IsShort h1 then
           h1\<lparr>m_s := (drop_bit 5 (t AND 0x20) \<noteq> 0), m_k := (drop_bit 2 (t AND 0x04) \<noteq> 0)\<rparr>
         else SetType h1 (drop_bit 4 (t AND 0x30)))"

text \<open>The second part: the connection id, read when \<open>HasConnectionId\<close> holds.\<close>

definition Deserialize_connectionId ::
  "QuicHeader \<Rightarrow> u8 list \<Rightarrow> error + (QuicHeader \<times> u8 list)" where
  "Deserialize_connectionId h i =
     (if HasConnectionId h then
        (case ReadNtohU64 i of
           Inl e \<Rightarrow> Inl e
         | Inr (v, i1) \<Rightarrow> Inr (SetConnectionID h v, i1))
      else Inr (h, i))"

text \<open>
  The third part: version and packet number of a long header, or the packet number of
  a short one, read in the width that \<open>m_packetLength\<close> holds at that moment.
\<close>

definition Deserialize_rest ::
  "QuicHeader \<Rightarrow> u8 list \<Rightarrow> error + (QuicHeader \<times> u8 list)" where
  "Deserialize_rest h i =
     (if IsLong h then
        (case ReadNtohU32 i of
           Inl e \<Rightarrow> Inl e
         | Inr (v, i1) \<Rightarrow>
             (case SetVersion h v of
                Inl e \<Rightarrow> Inl e
              | Inr h1 \<Rightarrow>
                  (if \<not> IsVersionNegotiation h1 then
                     (case ReadNtohU32 i1 of
                        Inl e \<Rightarrow> Inl e
                      | Inr (p, i2) \<Rightarrow> Inr (SetPacketNumber h1 p, i2))
                   else Inr (h1, i1))))
      else if m_packetLength h = ONE_OCTECT then
        (case ReadU8 i of
           Inl e \<Rightarrow> Inl e
         | Inr (p, i1) \<Rightarrow> Inr (SetPacketNumber h (ucast p), i1))
      else if m_packetLength h = TWO_OCTECTS then
        (case ReadNtohU16 i of
           Inl e \<Rightarrow> Inl e
         | Inr (p, i1) \<Rightarrow> Inr (SetPacketNumber h (ucast p), i1))
      else if m_packetLength h = FOUR_OCTECTS then
        (case ReadNtohU32 i of
           Inl e \<Rightarrow> Inl e
         | Inr (p, i1) \<Rightarrow> Inr (SetPacketNumber h p, i1))
      else Inr (h, i))"

text \<open>
  \<open>Deserialize\<close> reads from the bytes at the cursor into the header it is called on,
  and returns the header as populated with \<open>GetSerializedSize\<close> of it.
\<close>

definition Deserialize :: "QuicHeader \<Rightarrow> u8 list \<Rightarrow> error + (QuicHeader \<times> u32)" where
  "Deserialize h start =
     (case ReadU8 start of
        Inl e \<Rightarrow> Inl e
      | Inr (t, i) \<Rightarrow>
          (let h1 = Deserialize_flags h t
           in if \<not> (m_type h1 \<noteq> NONE \<or> m_form h1 = SHORT) then Inl UnassignedLongType
              else
                (case Deserialize_connectionId h1 i of
                   Inl e \<Rightarrow> Inl e
                 | Inr (h2, i1) \<Rightarrow>
                     (case Deserialize_rest h2 i1 of
                        Inl e \<Rightarrow> Inl e
                      | Inr (h3, i2) \<Rightarrow>
                          (case GetSerializedSize h3 of
                             Inl e \<Rightarrow> Inl e
                           | Inr n \<Rightarrow> Inr (h3, n))))))"

subsection \<open>Factories\<close>

definition CreateInitial :: "u64 \<Rightarrow> u32 \<Rightarrow> u32 \<Rightarrow> error + QuicHeader" where
  "CreateInitial connectionId version packetNumber =
     (let head1 = SetFormat QuicHeader_ctor LONG;
          head2 = SetType head1 INITIAL;
          head3 = SetConnectionID head2 connectionId
      in case SetVersion head3 version of
           Inl e \<Rightarrow> Inl e
         | Inr head4 \<Rightarrow> Inr (SetPacketNumber head4 packetNumber))"

definition CreateRetry :: "u64 \<Rightarrow> u32 \<Rightarrow> u32 \<Rightarrow> error + QuicHeader" where
  "CreateRetry connectionId version packetNumber =
     (let head1 = SetFormat QuicHeader_ctor LONG;
          head2 = SetType head1 RETRY;
          head3 = SetConnectionID head2 connectionId
      in case SetVersion head3 version of
           Inl e \<Rightarrow> Inl e
         | Inr head4 \<Rightarrow> Inr (SetPacketNumber head4 packetNumber))"

definition CreateHandshake :: "u64 \<Rightarrow> u32 \<Rightarrow> u32 \<Rightarrow> error + QuicHeader" where
  "CreateHandshake connectionId version packetNumber =
     (let head1 = SetFormat QuicHeader_ctor LONG;
          head2 = SetType head1 HANDSHAKE;
          head3 = SetConnectionID head2 connectionId
      in case SetVersion head3 version of
           Inl e \<Rightarrow> Inl e
         | Inr head4 \<Rightarrow> Inr (SetPacketNumber head4 packetNumber))"

definition Create0RTT :: "u64 \<Rightarrow> u32 \<Rightarrow> u32 \<Rightarrow> error + QuicHeader" where
  "Create0RTT connectionId version packetNumber =
     (let head1 = SetFormat QuicHeader_ctor LONG;
          head2 = SetType head1 ZRTT_PROTECTED;
          head3 = SetConnectionID head2 connectionId
      in case SetVersion head3 version of
           Inl e \<Rightarrow> Inl e
         | Inr head4 \<Rightarrow> Inr (SetPacketNumber head4 packetNumber))"

definition CreateShort :: "u64 \<Rightarrow> u32 \<Rightarrow> bool \<Rightarrow> bool \<Rightarrow> bool \<Rightarrow> error + QuicHeader" where
  "CreateShort connectionId packetNumber connectionIdFlag keyPhaseBit spinBit =
     (let head1 = SetFormat QuicHeader_ctor SHORT
      in case SetSpinBit head1 spinBit of
           Inl e \<Rightarrow> Inl e
         | Inr head2 \<Rightarrow>
             (case SetKeyPhaseBit head2 keyPhaseBit of
                Inl e \<Rightarrow> Inl e
              | Inr head3 \<Rightarrow>
                  (let head4 = SetPacketNumber head3 packetNumber
                   in if connectionIdFlag then Inr (SetConnectionID head4 connectionId)
                      else Inr head4)))"

text \<open>
  \<open>CreateVersionNegotiation\<close>: the call of \<open>SetType\<close> and the encoding of the
  supported versions are commented out in the source; \<open>version\<close> and
  \<open>supportedVersions\<close> are not read.
\<close>

definition CreateVersionNegotiation :: "u64 \<Rightarrow> u32 \<Rightarrow> u32 list \<Rightarrow> error + QuicHeader" where
  "CreateVersionNegotiation connectionId version supportedVersions =
     (let head1 = SetFormat QuicHeader_ctor LONG;
          head2 = SetConnectionID head1 connectionId
      in SetVersion head2 0)"

subsection \<open>Equality\<close>

text \<open>\<open>operator==\<close> on two headers.\<close>

definition operator_eq :: "QuicHeader \<Rightarrow> QuicHeader \<Rightarrow> bool" where
  "operator_eq lhs rhs =
     (if m_form lhs = m_form rhs then
        (if m_form lhs then
           (m_type lhs = m_type rhs \<and> m_version lhs = m_version rhs
            \<and> m_DCIDLength lhs = m_DCIDLength rhs
            \<and> m_connectionId lhs = m_connectionId rhs
            \<and> m_SCIDLength lhs = m_SCIDLength rhs \<and> m_SCID lhs = m_SCID rhs
            \<and> m_packetNumber lhs = m_packetNumber rhs)
         else
           (m_s lhs = m_s rhs \<and> m_k lhs = m_k rhs
            \<and> m_packetLength lhs = m_packetLength rhs
            \<and> m_connectionId lhs = m_connectionId rhs
            \<and> m_packetNumber lhs = m_packetNumber rhs))
      else False)"

section \<open>Theorems\<close>

lemmas enum_defs =
  SHORT_def LONG_def INITIAL_def ZRTT_PROTECTED_def HANDSHAKE_def RETRY_def
  VERSION_NEGOTIATION_def NONE_def ONE_OCTECT_def TWO_OCTECTS_def FOUR_OCTECTS_def
  SPIN_ZERO_def PHASE_ZERO_def

lemmas classifier_defs =
  IsShort_def IsLong_def IsVersionNegotiation_def IsInitial_def HasVersion_def
  HasConnectionId_def

lemmas setter_defs =
  SetFormat_def SetType_def SetConnectionID_def SetVersion_def SetPacketNumber_def
  SetPacketLength_def SetSpinBit_def SetKeyPhaseBit_def

lemmas write_defs = WriteU8_def WriteHtonU16_def WriteHtonU32_def WriteHtonU64_def

lemmas Deserialize_defs =
  Deserialize_def Deserialize_flags_def Deserialize_connectionId_def Deserialize_rest_def
  GetSerializedSize_def CalculateHeaderLength_def GetPacketNumLen_def GetDCIDLen_def
  GetSCIDLen_def

subsection \<open>The enumerators and the name tables\<close>

text \<open>
  The enumerators index the name tables of \<open>TypeToString\<close> as their names say.
\<close>

lemma longTypeNames_enumerators:
  "longTypeNames ! unat INITIAL = ''Initial''
   \<and> longTypeNames ! unat ZRTT_PROTECTED = ''0-RTT Protected''
   \<and> longTypeNames ! unat HANDSHAKE = ''Handshake''
   \<and> longTypeNames ! unat RETRY = ''Retry''
   \<and> longTypeNames ! unat VERSION_NEGOTIATION = ''Version Negotiation''
   \<and> longTypeNames ! unat NONE = ''None''"
  by (simp add: longTypeNames_def enum_defs)

lemma shortTypeNames_enumerators:
  "shortTypeNames ! unat ONE_OCTECT = ''1 Octet''
   \<and> shortTypeNames ! unat TWO_OCTECTS = ''2 Octets''
   \<and> shortTypeNames ! unat FOUR_OCTECTS = ''4 Octets''"
  by (simp add: shortTypeNames_def enum_defs)

subsection \<open>The factories\<close>

lemma CreateInitial_value:
  "CreateInitial connectionId version packetNumber =
     Inr (QuicHeader_ctor\<lparr>m_form := LONG, m_type := INITIAL, m_connectionId := connectionId,
            m_version := version, m_packetNumber := packetNumber\<rparr>)"
  by (simp add: CreateInitial_def setter_defs classifier_defs enum_defs QuicHeader_ctor_def
      Let_def)

lemma CreateShort_value:
  "CreateShort connectionId packetNumber connectionIdFlag keyPhaseBit spinBit =
     Inr (let head = SetPacketNumber (QuicHeader_ctor\<lparr>m_s := spinBit, m_k := keyPhaseBit\<rparr>)
                       packetNumber
          in if connectionIdFlag then head\<lparr>m_connectionId := connectionId, m_c := True\<rparr>
             else head)"
  by (simp add: CreateShort_def setter_defs classifier_defs enum_defs QuicHeader_ctor_def
      Let_def)

subsection \<open>Bytes written are the bytes read\<close>

lemma be16: "push_bit 8 (ucast (ucast (drop_bit 8 v) :: 8 word)) OR ucast (ucast v :: 8 word) = (v :: 16 word)"
proof (rule bit_word_eqI)
  fix n assume "n < LENGTH(16)"
  then have n: "n < 16" by simp
  show "bit (push_bit 8 (ucast (ucast (drop_bit 8 v) :: 8 word)) OR ucast (ucast v :: 8 word) :: 16 word) n = bit v n"
  proof (cases "n < 8")
    case True then show ?thesis by (auto simp: bit_simps)
  next
    case False
    then have "8 + (n - 8) = n" by simp
    with False n show ?thesis by (auto simp: bit_simps)
  qed
qed

lemma be32: "push_bit 24 (ucast (ucast (drop_bit 24 v) :: 8 word)) OR push_bit 16 (ucast (ucast (drop_bit 16 v) :: 8 word))
   OR push_bit 8 (ucast (ucast (drop_bit 8 v) :: 8 word)) OR ucast (ucast v :: 8 word) = (v :: 32 word)"
  (is "?w = v")
proof (rule bit_word_eqI)
  fix n assume "n < LENGTH(32)"
  then have n: "n < 32" by simp
  consider "n < 8" | "8 \<le> n" "n < 16" | "16 \<le> n" "n < 24" | "24 \<le> n"
    by linarith
  then show "bit ?w n = bit v n"
  proof cases
    case 1 then show ?thesis by (auto simp: bit_simps)
  next
    case 2 
    then have "8 + (n - 8) = n" by simp
    with 2 n show ?thesis by (auto simp: bit_simps)
  next
    case 3
    then have "16 + (n - 16) = n" by simp
    with 3 n show ?thesis by (auto simp: bit_simps)
  next
    case 4
    then have "24 + (n - 24) = n" by simp
    with 4 n show ?thesis by (auto simp: bit_simps)
  qed
qed

lemma be64: "push_bit 56 (ucast (ucast (drop_bit 56 v) :: 8 word)) OR push_bit 48 (ucast (ucast (drop_bit 48 v) :: 8 word))
   OR push_bit 40 (ucast (ucast (drop_bit 40 v) :: 8 word)) OR push_bit 32 (ucast (ucast (drop_bit 32 v) :: 8 word))
   OR push_bit 24 (ucast (ucast (drop_bit 24 v) :: 8 word)) OR push_bit 16 (ucast (ucast (drop_bit 16 v) :: 8 word))
   OR push_bit 8 (ucast (ucast (drop_bit 8 v) :: 8 word)) OR ucast (ucast v :: 8 word) = (v :: 64 word)"
  (is "?w = v")
proof (rule bit_word_eqI)
  fix n assume "n < LENGTH(64)"
  then have n: "n < 64" by simp
  consider "n < 8" | "8 \<le> n" "n < 16" | "16 \<le> n" "n < 24" | "24 \<le> n" "n < 32"
    | "32 \<le> n" "n < 40" | "40 \<le> n" "n < 48" | "48 \<le> n" "n < 56" | "56 \<le> n"
    by linarith
  then show "bit ?w n = bit v n"
  proof cases
    case 1 then show ?thesis by (auto simp: bit_simps)
  next
    case 2 
    then have "8 + (n - 8) = n" by simp
    with 2 n show ?thesis by (auto simp: bit_simps)
  next
    case 3
    then have "16 + (n - 16) = n" by simp
    with 3 n show ?thesis by (auto simp: bit_simps)
  next
    case 4
    then have "24 + (n - 24) = n" by simp
    with 4 n show ?thesis by (auto simp: bit_simps)
  next
    case 5
    then have "32 + (n - 32) = n" by simp
    with 5 n show ?thesis by (auto simp: bit_simps)
  next
    case 6
    then have "40 + (n - 40) = n" by simp
    with 6 n show ?thesis by (auto simp: bit_simps)
  next
    case 7
    then have "48 + (n - 48) = n" by simp
    with 7 n show ?thesis by (auto simp: bit_simps)
  next
    case 8
    then have "56 + (n - 56) = n" by simp
    with 8 n show ?thesis by (auto simp: bit_simps)
  qed
qed

lemma ReadU8_WriteU8: "ReadU8 (WriteU8 v @ i) = Inr (v, i)"
  by (simp add: WriteU8_def)

lemma ReadNtohU16_WriteHtonU16: "ReadNtohU16 (WriteHtonU16 v @ i) = Inr (v, i)"
  by (simp add: WriteHtonU16_def be16)

lemma ReadNtohU32_WriteHtonU32: "ReadNtohU32 (WriteHtonU32 v @ i) = Inr (v, i)"
  by (simp add: WriteHtonU32_def be32)

lemma ReadNtohU64_WriteHtonU64: "ReadNtohU64 (WriteHtonU64 v @ i) = Inr (v, i)"
  by (simp add: WriteHtonU64_def be64)

lemmas Read_Write =
  ReadU8_WriteU8 ReadNtohU16_WriteHtonU16 ReadNtohU32_WriteHtonU32 ReadNtohU64_WriteHtonU64
  ReadU8_WriteU8 [of _ "[]", simplified] ReadNtohU16_WriteHtonU16 [of _ "[]", simplified]
  ReadNtohU32_WriteHtonU32 [of _ "[]", simplified]
  ReadNtohU64_WriteHtonU64 [of _ "[]", simplified]

lemma ucast_u8_u32: 
  assumes "p < 256" shows "ucast (ucast p :: 8 word) = (p :: 32 word)"
proof -
  have "unat p < 2 ^ 8" using assms by (simp add: word_less_nat_alt)
  then have "take_bit 8 (unat p) = unat p" by (simp only: take_bit_nat_eq_self)
  then show ?thesis
    by (simp add: word_unat_eq_iff unsigned_ucast_eq unsigned_take_bit_eq)
qed

lemma ucast_u16_u32: 
  assumes "p < 65536" shows "ucast (ucast p :: 16 word) = (p :: 32 word)"
proof -
  have "unat p < 2 ^ 16" using assms by (simp add: word_less_nat_alt)
  then have "take_bit 16 (unat p) = unat p" by (simp only: take_bit_nat_eq_self)
  then show ?thesis
    by (simp add: word_unat_eq_iff unsigned_ucast_eq unsigned_take_bit_eq)
qed

lemma ucast_u8_less: "(ucast (b :: 8 word) :: 32 word) < 256"
proof -
  have "unat b < 2 ^ 8" using unsigned_less [of b] by simp
  then show ?thesis
    by (simp add: word_less_nat_alt unsigned_ucast_eq take_bit_nat_eq_self)
qed

lemma flags_bit7: "(drop_bit 7 (t AND 0x80) \<noteq> 0) = bit (t :: 8 word) 7"
proof -
  have "drop_bit 7 (t AND 0x80) = (of_bool (bit t 7) :: 8 word)"
    by (rule bit_word_eqI) (auto simp: bit_simps)
  then show ?thesis by simp
qed

lemma Deserialize_flags_short_byte:
  assumes "pl \<in> {ONE_OCTECT, TWO_OCTECTS, FOUR_OCTECTS}"
  shows "Deserialize_flags d (push_bit 7 (of_bool False) + push_bit 6 (of_bool fx)
            + (push_bit 5 (of_bool s) + push_bit 2 (of_bool k) + pl))
         = d\<lparr>m_form := False, m_s := s, m_k := k\<rparr>"
  using assms
  by (cases fx; cases s; cases k)
     (auto simp: Deserialize_flags_def IsShort_def SHORT_def Let_def ONE_OCTECT_def TWO_OCTECTS_def FOUR_OCTECTS_def)

lemma Deserialize_flags_low_bits: "Deserialize_flags d (t AND 0xFC) = Deserialize_flags d t"
proof -
  have a: "(t AND 0xFC) AND 0x80 = t AND (0x80 :: 8 word)"
    by (simp add: and.assoc)
  have b: "(t AND 0xFC) AND 0x20 = t AND (0x20 :: 8 word)"
    by (simp add: and.assoc)
  have c: "(t AND 0xFC) AND 0x04 = t AND (0x04 :: 8 word)"
    by (simp add: and.assoc)
  have e: "(t AND 0xFC) AND 0x30 = t AND (0x30 :: 8 word)"
    by (simp add: and.assoc)
  show ?thesis
    unfolding Deserialize_flags_def a b c e ..
qed

lemma Deserialize_flags_short:
  assumes "\<not> bit t 7"
  shows "m_form (Deserialize_flags d t) = SHORT
    \<and> m_packetLength (Deserialize_flags d t) = m_packetLength d"
  using assms
  unfolding Deserialize_flags_def Let_def flags_bit7
  by (simp add: IsShort_def SHORT_def)

lemma Deserialize_connectionId_keeps:
  assumes "Deserialize_connectionId h i = Inr (h2, i1)"
  shows "m_form h2 = m_form h \<and> m_packetLength h2 = m_packetLength h"
  using assms
  by (auto simp: Deserialize_connectionId_def SetConnectionID_def Let_def
      split: if_splits sum.splits)

lemma Deserialize_rest_short:
  assumes "m_form h = SHORT"
    and "Deserialize_rest h i = Inr (h3, i2)"
    and "GetSerializedSize h3 = Inr n"
  shows "m_packetLength h3 =
      (if m_packetNumber h3 < 256 then ONE_OCTECT
       else if m_packetNumber h3 < 65536 then TWO_OCTECTS else FOUR_OCTECTS)
    \<and> m_packetLength h \<in> {ONE_OCTECT, TWO_OCTECTS, FOUR_OCTECTS}
    \<and> (m_packetLength h = ONE_OCTECT \<longrightarrow> m_packetLength h3 = ONE_OCTECT)"
proof -
  have long: "\<not> IsLong h"
    using assms(1) by (simp add: IsLong_def SHORT_def LONG_def)
  have short: "IsShort (h\<lparr>m_packetNumber := p\<rparr>)" for p
    using assms(1) by (simp add: IsShort_def)
  consider (one) "m_packetLength h = ONE_OCTECT"
    | (two) "m_packetLength h \<noteq> ONE_OCTECT" "m_packetLength h = TWO_OCTECTS"
    | (four) "m_packetLength h \<noteq> ONE_OCTECT" "m_packetLength h \<noteq> TWO_OCTECTS"
        "m_packetLength h = FOUR_OCTECTS"
    | (other) "m_packetLength h \<noteq> ONE_OCTECT" "m_packetLength h \<noteq> TWO_OCTECTS"
        "m_packetLength h \<noteq> FOUR_OCTECTS"
    by blast
  then show ?thesis
  proof cases
    case one
    with assms(2) long obtain b :: u8 where "h3 = SetPacketNumber h (ucast b)"
      by (auto simp: Deserialize_rest_def split: sum.splits)
    with one short show ?thesis
      by (simp add: SetPacketNumber_def SetPacketLength_def Let_def ucast_u8_less)
  next
    case two
    with assms(2) long obtain p :: u32 where "h3 = SetPacketNumber h p"
      by (auto simp: Deserialize_rest_def split: sum.splits)
    with two short show ?thesis
      by (simp add: SetPacketNumber_def SetPacketLength_def Let_def)
  next
    case four
    with assms(2) long obtain p :: u32 where "h3 = SetPacketNumber h p"
      by (auto simp: Deserialize_rest_def split: sum.splits)
    with four short show ?thesis
      by (simp add: SetPacketNumber_def SetPacketLength_def Let_def)
  next
    case other
    with assms(2) long have "h3 = h"
      by (simp add: Deserialize_rest_def)
    with other long assms(1,3) show ?thesis
      by (simp add: GetSerializedSize_def CalculateHeaderLength_def GetPacketNumLen_def)
  qed
qed

lemma Serialize_short:
  assumes "m_form h = SHORT"
  shows "Serialize h =
     Inr (WriteU8 (push_bit 7 (of_bool False) + push_bit 6 (of_bool (m_fixed h))
                   + (push_bit 5 (of_bool (m_s h)) + push_bit 2 (of_bool (m_k h))
                      + m_packetLength h))
          @ (if m_c h then WriteHtonU64 (m_connectionId h) else [])
          @ (if m_packetLength h = ONE_OCTECT then WriteU8 (ucast (m_packetNumber h))
             else if m_packetLength h = TWO_OCTECTS
               then WriteHtonU16 (ucast (m_packetNumber h))
             else if m_packetLength h = FOUR_OCTECTS then WriteHtonU32 (m_packetNumber h)
             else []))"
  using assms
  by (simp add: Serialize_def HasConnectionId_def IsShort_def SHORT_def Let_def)

lemma Deserialize_rest_written:
  assumes "m_form d = SHORT"
    and "m_packetLength d =
      (if p < 256 then ONE_OCTECT else if p < 65536 then TWO_OCTECTS else FOUR_OCTECTS)"
  shows "Deserialize_rest d
      (if m_packetLength d = ONE_OCTECT then WriteU8 (ucast p)
       else if m_packetLength d = TWO_OCTECTS then WriteHtonU16 (ucast p)
       else if m_packetLength d = FOUR_OCTECTS then WriteHtonU32 p else [])
     = Inr (SetPacketNumber d p, [])"
proof -
  have long: "\<not> IsLong d"
    using assms(1) by (simp add: IsLong_def SHORT_def LONG_def)
  consider (one) "p < 256" | (two) "\<not> p < 256" "p < 65536" | (four) "\<not> p < 256" "\<not> p < 65536"
    by blast
  then show ?thesis
  proof cases
    case one
    with assms(2) have "m_packetLength d = ONE_OCTECT" by simp
    with long one show ?thesis
      by (simp add: Deserialize_rest_def Read_Write ucast_u8_u32)
  next
    case two
    with assms(2) have "m_packetLength d = TWO_OCTECTS" by simp
    with long two show ?thesis
      by (simp add: Deserialize_rest_def Read_Write ucast_u16_u32 enum_defs)
  next
    case four
    with assms(2) have "m_packetLength d = FOUR_OCTECTS" by simp
    with long four show ?thesis
      by (simp add: Deserialize_rest_def Read_Write enum_defs)
  qed
qed

lemma CalculateHeaderLength_long:
  assumes "m_form h = LONG"
  shows "CalculateHeaderLength h =
      Inr ((8 + 32 + 8 + 8 + ucast (m_DCIDLength h) + ucast (m_SCIDLength h)) div 8)"
  using assms
  by (simp add: CalculateHeaderLength_def GetDCIDLen_def GetSCIDLen_def IsLong_def)

lemma CalculateHeaderLength_short:
  assumes "m_form h = SHORT"
    and "m_packetLength h \<in> {ONE_OCTECT, TWO_OCTECTS, FOUR_OCTECTS}"
  shows "CalculateHeaderLength h =
      Inr ((8 + 160 * of_bool (HasConnectionId h)
            + (if m_packetLength h = ONE_OCTECT then 8
               else if m_packetLength h = TWO_OCTECTS then 16 else 32)) div 8)"
  using assms
  by (auto simp: CalculateHeaderLength_def GetPacketNumLen_def classifier_defs enum_defs)

lemma GetSerializedSize_short:
  assumes "m_form h = SHORT"
  shows "GetSerializedSize h = CalculateHeaderLength h"
  using assms by (simp add: GetSerializedSize_def)

subsection \<open>Claims\<close>

text \<open>
  C1. The claim: for every long header with a type other than None, deserializing the
  bytes of \<open>Serialize\<close> into a fresh header gives a header equal to the one
  serialized. The code at \<open>CreateInitial (0x1122334455667788, 1, 5)\<close>: \<open>Serialize\<close>
  writes flags, version, DCID length, DCID, SCID length, SCID and packet number;
  \<open>Deserialize\<close> reads the eight bytes after the flags as the connection id, the next
  four as the version and the next four as the packet number, so the header it returns
  has connection id 0x0000000100112233, version 0x44556677 and packet number
  0x88000000, and \<open>operator==\<close> is false.
\<close>

theorem Deserialize_Serialize_CreateInitial_differs:
  "\<exists>h bs d n. CreateInitial 0x1122334455667788 1 5 = Inr h
     \<and> m_form h = LONG \<and> m_type h \<noteq> NONE
     \<and> Serialize h = Inr bs
     \<and> Deserialize QuicHeader_ctor bs = Inr (d, n)
     \<and> \<not> operator_eq d h
     \<and> m_connectionId d = 0x0000000100112233
     \<and> m_version d = 0x44556677
     \<and> m_packetNumber d = 0x88000000
     \<and> m_connectionId h = 0x1122334455667788 \<and> m_version h = 1 \<and> m_packetNumber h = 5"
  by (simp add: CreateInitial_value Serialize_def Deserialize_defs operator_eq_def
      setter_defs QuicHeader_ctor_def classifier_defs enum_defs write_defs Let_def)

theorem Deserialize_Serialize_CreateInitial_differs_witness:
  "\<exists>h bs d n. CreateInitial 0x1122334455667788 1 5 = Inr h \<and> Serialize h = Inr bs
     \<and> Deserialize QuicHeader_ctor bs = Inr (d, n) \<and> \<not> operator_eq d h"
  using Deserialize_Serialize_CreateInitial_differs by blast

text \<open>
  C2. The claim: the size of a long header is
  \<open>(8 + 32 + 8 + 8 + DCIDLength * 8 + SCIDLength * 8 + (version = 0 ? 0 : 32)) / 8\<close>.
  The code at \<open>CreateInitial (0x1122334455667788, 1, 5)\<close>, whose two length fields
  are 0 and whose version is 1: \<open>CalculateHeaderLength\<close> returns 7, the claim's
  formula gives 11, and \<open>Serialize\<close> writes 27 bytes.
\<close>

theorem CalculateHeaderLength_CreateInitial:
  "\<exists>h bs. CreateInitial 0x1122334455667788 1 5 = Inr h \<and> IsLong h
     \<and> CalculateHeaderLength h = Inr 7
     \<and> (8 + 32 + 8 + 8 + ucast (m_DCIDLength h) * 8 + ucast (m_SCIDLength h) * 8
          + (if IsVersionNegotiation h then 0 else 32)) div 8 = (11 :: u32)
     \<and> Serialize h = Inr bs \<and> length bs = 27"
  by (simp add: CreateInitial_value Serialize_def CalculateHeaderLength_def GetDCIDLen_def
      GetSCIDLen_def QuicHeader_ctor_def classifier_defs enum_defs write_defs Let_def)

theorem CalculateHeaderLength_CreateInitial_witness:
  "\<exists>h. CreateInitial 0x1122334455667788 1 5 = Inr h \<and> CalculateHeaderLength h = Inr 7"
  using CalculateHeaderLength_CreateInitial by blast

text \<open>
  C3, as amended. For every short header \<open>h\<close> whose \<open>m_packetLength\<close> is the minimal
  width of its packet number (as \<open>SetPacketNumber\<close> leaves it), if the decoding
  target has \<open>m_packetLength\<close> and the connection id flag \<open>m_c\<close> pre-set to the values
  of \<open>h\<close>, and, when \<open>h\<close> carries no connection id, holds the connection id of \<open>h\<close>,
  then \<open>Serialize h\<close> succeeds, \<open>Deserialize\<close> of its bytes into the target succeeds,
  and the header it returns is equal to \<open>h\<close> under \<open>operator==\<close>.
\<close>

theorem Deserialize_Serialize_short:
  assumes short: "m_form h = SHORT"
    and minimal: "m_packetLength h =
      (if m_packetNumber h < 256 then ONE_OCTECT
       else if m_packetNumber h < 65536 then TWO_OCTECTS else FOUR_OCTECTS)"
    and len: "m_packetLength d = m_packetLength h"
    and flag: "m_c d = m_c h"
    and cid: "m_c h \<or> m_connectionId d = m_connectionId h"
  shows "\<exists>bs d' n. Serialize h = Inr bs \<and> Deserialize d bs = Inr (d', n)
    \<and> operator_eq d' h"
proof -
  define t where "t = push_bit 7 (of_bool False) + push_bit 6 (of_bool (m_fixed h))
                   + (push_bit 5 (of_bool (m_s h)) + push_bit 2 (of_bool (m_k h))
                      + m_packetLength h)"
  define pn where "pn = (if m_packetLength h = ONE_OCTECT then WriteU8 (ucast (m_packetNumber h))
             else if m_packetLength h = TWO_OCTECTS
               then WriteHtonU16 (ucast (m_packetNumber h))
             else if m_packetLength h = FOUR_OCTECTS then WriteHtonU32 (m_packetNumber h)
             else [])"
  define bs where "bs = t # (if m_c h then WriteHtonU64 (m_connectionId h) else []) @ pn"
  define d1 where "d1 = d\<lparr>m_form := False, m_s := m_s h, m_k := m_k h\<rparr>"
  define d2 where "d2 = (if m_c h then SetConnectionID d1 (m_connectionId h) else d1)"
  define d3 where "d3 = SetPacketNumber d2 (m_packetNumber h)"
  have valid: "m_packetLength h \<in> {ONE_OCTECT, TWO_OCTECTS, FOUR_OCTECTS}"
    using minimal by simp
  have ser: "Serialize h = Inr bs"
    using Serialize_short [OF short] by (simp add: bs_def t_def pn_def WriteU8_def)
  have flags: "Deserialize_flags d t = d1"
    unfolding t_def d1_def by (rule Deserialize_flags_short_byte [OF valid])
  have d1: "m_form d1 = SHORT" "m_c d1 = m_c h" "m_packetLength d1 = m_packetLength h"
    using len flag by (simp_all add: d1_def SHORT_def)
  have conn: "Deserialize_connectionId d1
      ((if m_c h then WriteHtonU64 (m_connectionId h) else []) @ pn) = Inr (d2, pn)"
    using d1 by (simp add: Deserialize_connectionId_def HasConnectionId_def IsShort_def
        d2_def Read_Write)
  have d2: "m_form d2 = SHORT" "m_packetLength d2 = m_packetLength h"
    "m_connectionId d2 = m_connectionId h" "m_s d2 = m_s h" "m_k d2 = m_k h"
    "m_c d2 = m_c h"
    using d1 cid flag
    by (auto simp: d2_def d1_def SetConnectionID_def IsShort_def Let_def)
  have rest: "Deserialize_rest d2 pn = Inr (d3, [])"
  proof -
    have m: "m_packetLength d2 =
        (if m_packetNumber h < 256 then ONE_OCTECT
         else if m_packetNumber h < 65536 then TWO_OCTECTS else FOUR_OCTECTS)"
      using d2(2) minimal by (simp only:)
    show ?thesis
      unfolding pn_def d3_def d2(2) [symmetric]
      by (rule Deserialize_rest_written [OF d2(1) m])
  qed
  have d3: "m_form d3 = SHORT" "m_packetLength d3 = m_packetLength h"
    "m_connectionId d3 = m_connectionId h" "m_s d3 = m_s h" "m_k d3 = m_k h"
    "m_packetNumber d3 = m_packetNumber h" "m_c d3 = m_c h"
    using d2 minimal
    by (simp_all add: d3_def SetPacketNumber_def SetPacketLength_def IsShort_def Let_def)
  obtain n where size: "GetSerializedSize d3 = Inr n"
    using GetSerializedSize_short [OF d3(1)] CalculateHeaderLength_short [OF d3(1)] d3(2) valid
    by simp
  have "Deserialize d bs = Inr (d3, n)"
    using flags d1 conn rest size
    by (simp add: Deserialize_def bs_def Let_def)
  moreover have "operator_eq d3 h"
    using d3 short by (simp add: operator_eq_def SHORT_def)
  ultimately show ?thesis
    using ser by blast
qed

theorem Deserialize_Serialize_short_witness:
  "m_form (QuicHeader_ctor\<lparr>m_s := True, m_packetLength := TWO_OCTECTS,
      m_connectionId := 0xAABB, m_packetNumber := 300, m_c := True\<rparr>) = SHORT
   \<and> m_packetLength (QuicHeader_ctor\<lparr>m_c := True, m_packetLength := TWO_OCTECTS\<rparr>) =
       TWO_OCTECTS
   \<and> (\<exists>bs d' n.
        Serialize (QuicHeader_ctor\<lparr>m_s := True, m_packetLength := TWO_OCTECTS,
          m_connectionId := 0xAABB, m_packetNumber := 300, m_c := True\<rparr>) = Inr bs
        \<and> Deserialize (QuicHeader_ctor\<lparr>m_c := True, m_packetLength := TWO_OCTECTS\<rparr>) bs
            = Inr (d', n)
        \<and> operator_eq d' (QuicHeader_ctor\<lparr>m_s := True, m_packetLength := TWO_OCTECTS,
             m_connectionId := 0xAABB, m_packetNumber := 300, m_c := True\<rparr>))"
proof -
  let ?h = "QuicHeader_ctor\<lparr>m_s := True, m_packetLength := TWO_OCTECTS,
      m_connectionId := 0xAABB, m_packetNumber := 300, m_c := True\<rparr>"
  let ?d = "QuicHeader_ctor\<lparr>m_c := True, m_packetLength := TWO_OCTECTS\<rparr>"
  have short: "m_form ?h = SHORT"
    by (simp add: QuicHeader_ctor_def)
  have minimal: "m_packetLength ?h =
      (if m_packetNumber ?h < 256 then ONE_OCTECT
       else if m_packetNumber ?h < 65536 then TWO_OCTECTS else FOUR_OCTECTS)"
    by (simp add: QuicHeader_ctor_def)
  have len: "m_packetLength ?d = m_packetLength ?h"
    by simp
  have flag: "m_c ?d = m_c ?h"
    by simp
  have cid: "m_c ?h \<or> m_connectionId ?d = m_connectionId ?h"
    by simp
  show ?thesis
    using short Deserialize_Serialize_short [OF short minimal len flag cid] by simp
qed

text \<open>
  C3 as stated fails. The header of \<open>CreateShort (0xAABB, 100, true, false, true)\<close>
  has a one-byte packet number and a connection id. A fresh target with
  \<open>m_packetLength\<close> pre-set to One has \<open>m_c = false\<close>, so \<open>Deserialize\<close> reads no
  connection id and takes the first byte of the connection id as the packet number:
  the header it returns has connection id 0 and packet number 0.
\<close>

theorem Deserialize_Serialize_short_fresh_target_counterexample:
  "CreateShort 0xAABB 100 True False True =
     Inr \<lparr>m_form = False, m_fixed = True, m_type = 0, m_s = True, m_k = False,
          m_packetLength = 0, m_version = 0, m_DCIDLength = 0, m_connectionId = 0xAABB,
          m_SCIDLength = 0, m_SCID = 0, m_packetNumber = 100, m_c = True\<rparr>
   \<and> Serialize \<lparr>m_form = False, m_fixed = True, m_type = 0, m_s = True, m_k = False,
          m_packetLength = 0, m_version = 0, m_DCIDLength = 0, m_connectionId = 0xAABB,
          m_SCIDLength = 0, m_SCID = 0, m_packetNumber = 100, m_c = True\<rparr> =
     Inr [0x60, 0x00, 0x00, 0x00, 0x00, 0x00, 0x00, 0xAA, 0xBB, 0x64]
   \<and> Deserialize (QuicHeader_ctor\<lparr>m_packetLength := ONE_OCTECT\<rparr>)
        [0x60, 0x00, 0x00, 0x00, 0x00, 0x00, 0x00, 0xAA, 0xBB, 0x64] =
     Inr (\<lparr>m_form = False, m_fixed = True, m_type = 0, m_s = True, m_k = False,
          m_packetLength = 0, m_version = 0, m_DCIDLength = 0, m_connectionId = 0,
          m_SCIDLength = 0, m_SCID = 0, m_packetNumber = 0, m_c = False\<rparr>, 2)
   \<and> \<not> operator_eq
        \<lparr>m_form = False, m_fixed = True, m_type = 0, m_s = True, m_k = False,
          m_packetLength = 0, m_version = 0, m_DCIDLength = 0, m_connectionId = 0,
          m_SCIDLength = 0, m_SCID = 0, m_packetNumber = 0, m_c = False\<rparr>
        \<lparr>m_form = False, m_fixed = True, m_type = 0, m_s = True, m_k = False,
          m_packetLength = 0, m_version = 0, m_DCIDLength = 0, m_connectionId = 0xAABB,
          m_SCIDLength = 0, m_SCID = 0, m_packetNumber = 100, m_c = True\<rparr>"
  by (simp add: CreateShort_value Serialize_def Deserialize_defs operator_eq_def
      setter_defs QuicHeader_ctor_def classifier_defs enum_defs write_defs Let_def)

text \<open>
  C4. On a short header, right after \<open>SetPacketNumber\<close> assigns the packet number \<open>v\<close>,
  \<open>m_packetLength\<close> is One when \<open>v < 256\<close>, Two when \<open>256 \<le> v < 65536\<close> and Four
  otherwise, and the packet number is \<open>v\<close>; at 255, 256, 65535 and 65536 the lengths are
  One, Two, Two and Four.
\<close>

theorem SetPacketNumber_short_length:
  assumes "m_form h = SHORT"
  shows "m_packetNumber (SetPacketNumber h v) = v
    \<and> m_packetLength (SetPacketNumber h v) =
        (if unat v < 256 then ONE_OCTECT
         else if unat v < 65536 then TWO_OCTECTS else FOUR_OCTECTS)
    \<and> m_packetLength (SetPacketNumber h 255) = ONE_OCTECT
    \<and> m_packetLength (SetPacketNumber h 256) = TWO_OCTECTS
    \<and> m_packetLength (SetPacketNumber h 65535) = TWO_OCTECTS
    \<and> m_packetLength (SetPacketNumber h 65536) = FOUR_OCTECTS"
proof -
  have lt8: "(v < 256) = (unat v < 256)"
    by (simp add: word_less_nat_alt)
  have lt16: "(v < 65536) = (unat v < 65536)"
    by (simp add: word_less_nat_alt)
  have gen: "m_packetLength (SetPacketNumber h w) =
      (if w < 256 then ONE_OCTECT else if w < 65536 then TWO_OCTECTS else FOUR_OCTECTS)"
    for w
    using assms by (simp add: SetPacketNumber_def SetPacketLength_def IsShort_def Let_def)
  have num: "m_packetNumber (SetPacketNumber h v) = v"
    by (simp add: SetPacketNumber_def SetPacketLength_def Let_def)
  show ?thesis
    using num gen [of v] gen [of 255] gen [of 256] gen [of 65535] gen [of 65536]
    by (simp add: lt8 lt16)
qed

theorem SetPacketNumber_short_length_witness:
  "m_form QuicHeader_ctor = SHORT
    \<and> m_packetLength (SetPacketNumber QuicHeader_ctor 300) = TWO_OCTECTS
    \<and> m_packetLength (SetPacketNumber QuicHeader_ctor 255) = ONE_OCTECT
    \<and> m_packetLength (SetPacketNumber QuicHeader_ctor 65536) = FOUR_OCTECTS"
proof -
  have short: "m_form QuicHeader_ctor = SHORT"
    by (simp add: QuicHeader_ctor_def)
  show ?thesis
    using short SetPacketNumber_short_length [OF short, of 300] by simp
qed

text \<open>
  C5. For every short header whose \<open>m_packetLength\<close> is One, Two or Four, the size
  calculator returns \<open>(8 + 160 * HasConnectionId + width) / 8\<close> with the width 8, 16
  or 32 bits; with no connection id and a one-byte packet number the serialized size
  is 2.
\<close>

theorem CalculateHeaderLength_short_formula:
  assumes "m_form h = SHORT"
    and "m_packetLength h \<in> {ONE_OCTECT, TWO_OCTECTS, FOUR_OCTECTS}"
  shows "CalculateHeaderLength h =
      Inr ((8 + 160 * of_bool (HasConnectionId h)
            + (if m_packetLength h = ONE_OCTECT then 8
               else if m_packetLength h = TWO_OCTECTS then 16 else 32)) div 8)
    \<and> CalculateHeaderLength (h\<lparr>m_c := False, m_packetLength := ONE_OCTECT\<rparr>) = Inr 2
    \<and> GetSerializedSize (h\<lparr>m_c := False, m_packetLength := ONE_OCTECT\<rparr>) = Inr 2"
  using assms
  by (auto simp: GetSerializedSize_def CalculateHeaderLength_def GetPacketNumLen_def
      classifier_defs enum_defs)

theorem CalculateHeaderLength_short_formula_witness:
  "m_form (QuicHeader_ctor\<lparr>m_c := True, m_packetLength := FOUR_OCTECTS\<rparr>) = SHORT
   \<and> CalculateHeaderLength (QuicHeader_ctor\<lparr>m_c := True, m_packetLength := FOUR_OCTECTS\<rparr>)
       = Inr 25
   \<and> CalculateHeaderLength (QuicHeader_ctor\<lparr>m_c := False, m_packetLength := ONE_OCTECT\<rparr>)
       = Inr 2"
proof -
  let ?h = "QuicHeader_ctor\<lparr>m_c := True, m_packetLength := FOUR_OCTECTS\<rparr>"
  have short: "m_form ?h = SHORT"
    by (simp add: QuicHeader_ctor_def)
  have valid: "m_packetLength ?h \<in> {ONE_OCTECT, TWO_OCTECTS, FOUR_OCTECTS}"
    by simp
  show ?thesis
    using short CalculateHeaderLength_short_formula [OF short valid]
    by (simp add: HasConnectionId_def IsShort_def enum_defs)
qed

text \<open>
  C6. For every long header with version 0, \<open>Serialize\<close> (when the type is not None,
  else it aborts) writes the flags, the version, the DCID length and the DCID, the
  SCID length and the SCID, 23 bytes, and nothing for the packet number, whose value
  does not change the bytes; the size calculator's result is the sum of the widths of
  the flags, the version, the two length bytes and the two length fields' values,
  with no term for the packet number, whose value does not change it either.
\<close>

theorem version_negotiation_no_packet_number:
  assumes "m_form h = LONG" and "m_version h = 0"
  shows "Serialize h =
      (if m_type h = NONE then Inl UnassignedLongType
       else Inr (WriteU8 (push_bit 7 1 + push_bit 6 (of_bool (m_fixed h))
                          + push_bit 4 (m_type h))
                 @ WriteHtonU32 0
                 @ WriteU8 (m_DCIDLength h) @ WriteHtonU64 (m_connectionId h)
                 @ WriteU8 (m_SCIDLength h) @ WriteHtonU64 (m_SCID h)))
    \<and> map_sum id length (Serialize h) =
        (if m_type h = NONE then Inl UnassignedLongType else Inr 23)
    \<and> Serialize (h\<lparr>m_packetNumber := p\<rparr>) = Serialize h
    \<and> CalculateHeaderLength h =
        Inr ((8 + 32 + 8 + 8 + ucast (m_DCIDLength h) + ucast (m_SCIDLength h)) div 8)
    \<and> CalculateHeaderLength (h\<lparr>m_packetNumber := p\<rparr>) = CalculateHeaderLength h"
  using assms
  by (simp add: Serialize_def CalculateHeaderLength_def GetDCIDLen_def GetSCIDLen_def
      classifier_defs enum_defs write_defs Let_def)

theorem version_negotiation_no_packet_number_witness:
  "m_form (QuicHeader_ctor\<lparr>m_form := LONG, m_connectionId := 0xAABB,
      m_packetNumber := 9\<rparr>) = LONG
   \<and> Serialize (QuicHeader_ctor\<lparr>m_form := LONG, m_connectionId := 0xAABB,
        m_packetNumber := 9\<rparr>) =
       Inr [0xC0, 0x00, 0x00, 0x00, 0x00, 0x00,
            0x00, 0x00, 0x00, 0x00, 0x00, 0x00, 0xAA, 0xBB, 0x00,
            0x00, 0x00, 0x00, 0x00, 0x00, 0x00, 0x00, 0x00]
   \<and> CalculateHeaderLength (QuicHeader_ctor\<lparr>m_form := LONG, m_connectionId := 0xAABB,
        m_packetNumber := 9\<rparr>) = Inr 7"
proof -
  let ?h = "QuicHeader_ctor\<lparr>m_form := LONG, m_connectionId := 0xAABB, m_packetNumber := 9\<rparr>"
  have long: "m_form ?h = LONG"
    by simp
  have vn: "m_version ?h = 0"
    by (simp add: QuicHeader_ctor_def)
  show ?thesis
    using long version_negotiation_no_packet_number [OF long vn]
    by (simp add: QuicHeader_ctor_def enum_defs write_defs)
qed

text \<open>
  C7. Serializing the header of \<open>CreateInitial (0x1122334455667788, 0x00000001, 5)\<close>
  gives the flags byte 0xC0, the version 00 00 00 01, the DCID length byte (0), the
  DCID 11 22 33 44 55 66 77 88, the SCID length byte (0), eight zero bytes for the
  SCID, and the packet number 00 00 00 05.
\<close>

theorem Serialize_CreateInitial_bytes:
  "(case CreateInitial 0x1122334455667788 0x00000001 5 of
      Inl e \<Rightarrow> Inl e | Inr h \<Rightarrow> Serialize h) =
   Inr [0xC0, 0x00, 0x00, 0x00, 0x01, 0x00,
        0x11, 0x22, 0x33, 0x44, 0x55, 0x66, 0x77, 0x88, 0x00,
        0x00, 0x00, 0x00, 0x00, 0x00, 0x00, 0x00, 0x00,
        0x00, 0x00, 0x00, 0x05]"
  by (simp add: CreateInitial_value Serialize_def QuicHeader_ctor_def classifier_defs
      enum_defs write_defs Let_def)

theorem Serialize_CreateInitial_bytes_witness:
  "\<exists>bs. (case CreateInitial 0x1122334455667788 0x00000001 5 of
      Inl e \<Rightarrow> Inl e | Inr h \<Rightarrow> Serialize h) = Inr bs
    \<and> length bs = 27 \<and> hd bs = 0xC0 \<and> last bs = 0x05"
  using Serialize_CreateInitial_bytes by simp

text \<open>
  C8. \<open>GetVersion\<close> fails with \<open>InvalidFieldAccess\<close> exactly on a short header,
  \<open>GetConnectionId\<close> exactly on a short header whose connection id flag is false,
  \<open>GetSpinBit\<close> and \<open>GetKeyPhaseBit\<close> exactly on a long header; otherwise each
  returns the stored field.
\<close>

theorem accessors_InvalidFieldAccess:
  "GetVersion h = (if IsShort h then Inl InvalidFieldAccess else Inr (m_version h))
   \<and> GetConnectionId h =
       (if IsShort h \<and> \<not> m_c h then Inl InvalidFieldAccess else Inr (m_connectionId h))
   \<and> GetSpinBit h = (if IsLong h then Inl InvalidFieldAccess else Inr (m_s h))
   \<and> GetKeyPhaseBit h = (if IsLong h then Inl InvalidFieldAccess else Inr (m_k h))"
  by (simp add: GetVersion_def GetConnectionId_def GetSpinBit_def GetKeyPhaseBit_def
      classifier_defs enum_defs)

text \<open>
  C9, as amended. For every byte sequence whose flags byte has bit 7 clear and every
  pre-call state of the target, a \<open>Deserialize\<close> that returns leaves
  \<open>m_packetLength\<close> at the minimal width of the packet number it stored (One below
  256, Two below 65536, Four otherwise); the pre-call value was One, Two or Four, and
  it is kept whenever it was One. Bits 1-0 of the flags byte are never extracted:
  clearing them does not change the result of the call.
\<close>

theorem Deserialize_short_packetLength:
  assumes "\<not> bit t 7"
    and "Deserialize d (t # bs) = Inr (d', n)"
  shows "m_packetLength d' =
      (if m_packetNumber d' < 256 then ONE_OCTECT
       else if m_packetNumber d' < 65536 then TWO_OCTECTS else FOUR_OCTECTS)
    \<and> m_packetLength d \<in> {ONE_OCTECT, TWO_OCTECTS, FOUR_OCTECTS}
    \<and> (m_packetLength d = ONE_OCTECT \<longrightarrow> m_packetLength d' = ONE_OCTECT)
    \<and> Deserialize d ((t AND 0xFC) # bs) = Deserialize d (t # bs)"
proof -
  define h1 where "h1 = Deserialize_flags d t"
  have h1: "m_form h1 = SHORT" "m_packetLength h1 = m_packetLength d"
    using Deserialize_flags_short [OF assms(1), of d] by (simp_all add: h1_def)
  from assms(2) obtain h2 i1 i2 where
    cid: "Deserialize_connectionId h1 bs = Inr (h2, i1)"
    and rest: "Deserialize_rest h2 i1 = Inr (d', i2)"
    and size: "GetSerializedSize d' = Inr n"
    by (auto simp: Deserialize_def Let_def h1_def split: sum.splits if_splits)
  have h2: "m_form h2 = SHORT" "m_packetLength h2 = m_packetLength d"
    using Deserialize_connectionId_keeps [OF cid] h1 by simp_all
  have low: "Deserialize d ((t AND 0xFC) # bs) = Deserialize d (t # bs)"
    by (simp add: Deserialize_def Deserialize_flags_low_bits)
  show ?thesis
    using Deserialize_rest_short [OF h2(1) rest size, unfolded h2(2)] low by blast
qed

theorem Deserialize_short_packetLength_witness:
  "\<not> bit (0x41 :: u8) 7
   \<and> Deserialize (QuicHeader_ctor\<lparr>m_packetLength := TWO_OCTECTS\<rparr>) [0x41, 0x01, 0x2C] =
       Inr (QuicHeader_ctor\<lparr>m_packetLength := TWO_OCTECTS, m_packetNumber := 300\<rparr>, 3)
   \<and> m_packetLength (QuicHeader_ctor\<lparr>m_packetLength := TWO_OCTECTS,
        m_packetNumber := 300\<rparr>) = TWO_OCTECTS
   \<and> Deserialize (QuicHeader_ctor\<lparr>m_packetLength := TWO_OCTECTS\<rparr>) [0x40, 0x01, 0x2C] =
       Deserialize (QuicHeader_ctor\<lparr>m_packetLength := TWO_OCTECTS\<rparr>) [0x41, 0x01, 0x2C]"
proof -
  let ?d = "QuicHeader_ctor\<lparr>m_packetLength := TWO_OCTECTS\<rparr>"
  let ?d' = "QuicHeader_ctor\<lparr>m_packetLength := TWO_OCTECTS, m_packetNumber := 300\<rparr>"
  have short: "\<not> bit (0x41 :: u8) 7"
    by simp
  have run: "Deserialize ?d (0x41 # [0x01, 0x2C]) = Inr (?d', 3)"
    by (simp add: Deserialize_defs setter_defs QuicHeader_ctor_def classifier_defs
        enum_defs Let_def)
  show ?thesis
    using short run Deserialize_short_packetLength [OF short run] by simp
qed

text \<open>
  C9 as stated fails. A target whose \<open>m_packetLength\<close> is Four before the call reads
  the four bytes 00 00 00 05 after the flags byte 0x42 as the packet number 5, and
  \<open>SetPacketNumber\<close> sets \<open>m_packetLength\<close> to One.
\<close>

theorem Deserialize_short_packetLength_changes_counterexample:
  "\<not> bit (0x42 :: u8) 7
   \<and> Deserialize (QuicHeader_ctor\<lparr>m_packetLength := FOUR_OCTECTS\<rparr>)
        [0x42, 0x00, 0x00, 0x00, 0x05] =
       Inr (QuicHeader_ctor\<lparr>m_packetLength := ONE_OCTECT, m_packetNumber := 5\<rparr>, 2)
   \<and> m_packetLength (QuicHeader_ctor\<lparr>m_packetLength := ONE_OCTECT, m_packetNumber := 5\<rparr>)
       \<noteq> m_packetLength (QuicHeader_ctor\<lparr>m_packetLength := FOUR_OCTECTS\<rparr>)"
  by (simp add: Deserialize_defs setter_defs QuicHeader_ctor_def classifier_defs
      enum_defs Let_def)

text \<open>
  C10. For every connection id, version argument and list of supported versions,
  \<open>CreateVersionNegotiation\<close> returns a long header whose type is the constructor's
  default, the code of Initial and not that of VersionNegotiation, so \<open>IsInitial\<close>
  holds on it; its version is 0, so \<open>IsVersionNegotiation\<close> holds, whatever type is
  set afterwards.
\<close>

theorem CreateVersionNegotiation_type:
  "\<exists>h. CreateVersionNegotiation connectionId version supportedVersions = Inr h
     \<and> m_type h = m_type QuicHeader_ctor
     \<and> m_type h = INITIAL \<and> m_type h \<noteq> VERSION_NEGOTIATION \<and> IsInitial h
     \<and> IsLong h \<and> m_version h = 0 \<and> IsVersionNegotiation h
     \<and> IsVersionNegotiation (SetType h typeByte)"
  by (simp add: CreateVersionNegotiation_def setter_defs classifier_defs enum_defs
      QuicHeader_ctor_def Let_def)

end
